theory Spec2Isabelle
  imports Main "HOL-Library.Sublist"
begin

section \<open>Text and characters\<close>

text \<open>
  A Python \<open>str\<close> is modelled by an Isabelle \<open>string\<close>. The character tests of the
  classifier (\<open>str.strip\<close>, \<open>str.lower\<close>, the classes \<open>\s\<close> and \<open>\w\<close>) are written for
  the ASCII range, where they are exact; a character above 127 is taken to be neither
  white space nor a word character nor upper case. Text outside ASCII that the formatter
  only copies (the emoji and the middle dot of its literals) is held as UTF-8 bytes.
\<close>

definition ws_chars :: string where
  "ws_chars = [CHR 0x09, CHR 0x0A, CHR 0x0B, CHR 0x0C, CHR 0x0D,
               CHR 0x1C, CHR 0x1D, CHR 0x1E, CHR 0x1F, CHR '' '']"

definition upper_chars :: string where
  "upper_chars = ''ABCDEFGHIJKLMNOPQRSTUVWXYZ''"

definition lower_chars :: string where
  "lower_chars = ''abcdefghijklmnopqrstuvwxyz''"

definition digit_chars :: string where
  "digit_chars = ''0123456789''"

definition is_space :: "char \<Rightarrow> bool" where
  "is_space c = (c \<in> set ws_chars)"

definition is_word :: "char \<Rightarrow> bool" where
  "is_word c = (c \<in> set (lower_chars @ upper_chars @ digit_chars @ ''_''))"

definition lower_char :: "char \<Rightarrow> char" where
  "lower_char c = (case map_of (zip upper_chars lower_chars) c of Some d \<Rightarrow> d | None \<Rightarrow> c)"

definition lower :: "string \<Rightarrow> string" where
  "lower s = map lower_char s"

definition strip :: "string \<Rightarrow> string" where
  "strip s = rev (dropWhile is_space (rev (dropWhile is_space s)))"

section \<open>Regular expressions as \<open>re.search\<close> runs them\<close>

text \<open>
  The fragment of Python's \<open>re\<close> syntax that the patterns of \<open>app/mode.py\<close> and
  \<open>app/main.py\<close> use. Repetition (\<open>*\<close>, \<open>+\<close>) is applied in the source to single
  character classes only, so \<open>Star\<close> and \<open>Plus\<close> take a class.
\<close>

datatype cset =
    Space              \<comment> \<open>\<open>\s\<close>\<close>
  | WordCh             \<comment> \<open>\<open>\w\<close>\<close>
  | Dot                \<comment> \<open>\<open>.\<close>: any character but a newline\<close>
  | Chars string       \<comment> \<open>the listed characters\<close>
  | Union cset cset    \<comment> \<open>a bracket expression joining both\<close>

fun in_cset :: "cset \<Rightarrow> char \<Rightarrow> bool" where
  "in_cset Space c = is_space c"
| "in_cset WordCh c = is_word c"
| "in_cset Dot c = (c \<noteq> CHR 0x0A)"
| "in_cset (Chars s) c = (c \<in> set s)"
| "in_cset (Union a b) c = (in_cset a c \<or> in_cset b c)"

datatype regex =
    Lit string           \<comment> \<open>a run of literal characters\<close>
  | One cset             \<comment> \<open>one character of a class\<close>
  | Star cset            \<comment> \<open>greedy \<open>*\<close>\<close>
  | Plus cset            \<comment> \<open>greedy \<open>+\<close>\<close>
  | Opt regex            \<comment> \<open>greedy \<open>?\<close>\<close>
  | Seq regex regex
  | Alt regex regex      \<comment> \<open>\<open>|\<close>, left branch tried first\<close>
  | Bol                  \<comment> \<open>\<open>^\<close>\<close>
  | Eol                  \<comment> \<open>\<open>$\<close>\<close>
  | Wb                   \<comment> \<open>\<open>\b\<close>\<close>
  | NotAhead regex       \<comment> \<open>\<open>(?!...)\<close>\<close>
  | Grp nat regex        \<comment> \<open>capturing group with its number\<close>

text \<open>
  A matcher state: the character just before the current position (\<open>None\<close> at the start
  of the text), the text still ahead, and the groups captured so far, latest first.
\<close>

type_synonym mstate = "char option \<times> string \<times> (nat \<times> string) list"

fun word_before :: "char option \<Rightarrow> bool" where
  "word_before None = False"
| "word_before (Some c) = is_word c"

fun word_ahead :: "string \<Rightarrow> bool" where
  "word_ahead [] = False"
| "word_ahead (c # r) = is_word c"

text \<open>All the ways a greedy repetition of a class can end, the longest first.\<close>

fun star :: "cset \<Rightarrow> char option \<Rightarrow> string \<Rightarrow> (nat \<times> string) list \<Rightarrow> mstate list" where
  "star cs p [] g = [(p, [], g)]"
| "star cs p (c # r) g =
     (if in_cset cs c then star cs (Some c) r g @ [(p, c # r, g)] else [(p, c # r, g)])"

text \<open>
  All the ways a pattern can match at a state, in the order in which the backtracking
  engine tries them; the head of the list is the match that \<open>re\<close> reports.
\<close>

fun ms :: "regex \<Rightarrow> mstate \<Rightarrow> mstate list" where
  "ms (Lit s) (p, r, g) =
     (if s = [] then [(p, r, g)]
      else if prefix s r then [(Some (last s), drop (length s) r, g)] else [])"
| "ms (One cs) (p, r, g) =
     (case r of [] \<Rightarrow> [] | c # r' \<Rightarrow> if in_cset cs c then [(Some c, r', g)] else [])"
| "ms (Star cs) (p, r, g) = star cs p r g"
| "ms (Plus cs) (p, r, g) =
     (case r of [] \<Rightarrow> [] | c # r' \<Rightarrow> if in_cset cs c then star cs (Some c) r' g else [])"
| "ms (Opt a) st = ms a st @ [st]"
| "ms (Seq a b) st = concat (map (ms b) (ms a st))"
| "ms (Alt a b) st = ms a st @ ms b st"
| "ms Bol (p, r, g) = (if p = None then [(p, r, g)] else [])"
| "ms Eol (p, r, g) = (if r = [] \<or> r = [CHR 0x0A] then [(p, r, g)] else [])"
| "ms Wb (p, r, g) = (if word_before p \<noteq> word_ahead r then [(p, r, g)] else [])"
| "ms (NotAhead a) st = (if ms a st = [] then [st] else [])"
| "ms (Grp n a) (p, r, g) =
     map (\<lambda>(p', r', g'). (p', r', (n, take (length r - length r') r) # g')) (ms a (p, r, g))"

text \<open>\<open>re.search\<close>: the first match at the leftmost position that has one.\<close>

fun scan :: "regex \<Rightarrow> char option \<Rightarrow> string \<Rightarrow> mstate option" where
  "scan rx p [] = (case ms rx (p, [], []) of [] \<Rightarrow> None | m # _ \<Rightarrow> Some m)"
| "scan rx p (c # r) =
     (case ms rx (p, c # r, []) of [] \<Rightarrow> scan rx (Some c) r | m # _ \<Rightarrow> Some m)"

definition re_search :: "regex \<Rightarrow> string \<Rightarrow> mstate option" where
  "re_search rx s = scan rx None s"

definition found :: "regex \<Rightarrow> string \<Rightarrow> bool" where
  "found rx s = (re_search rx s \<noteq> None)"

text \<open>\<open>(s|t|...)\<close>: an alternation of literal strings.\<close>

fun lits :: "string \<Rightarrow> string list \<Rightarrow> regex" where
  "lits s [] = Lit s"
| "lits s (t # ts) = Alt (Lit s) (lits t ts)"

fun seqs :: "regex \<Rightarrow> regex list \<Rightarrow> regex" where
  "seqs a [] = a"
| "seqs a (b # bs) = Seq a (seqs b bs)"

section \<open>Mode detection (\<open>app/mode.py\<close>)\<close>

datatype Mode = CHAT | CREATE | RETRIEVE

definition chat_patterns :: "regex list" where
  "chat_patterns =
    [seqs Bol [Grp 1 (lits ''hi'' [''hello'', ''hey'', ''greetings'']),
               Star (Union Space (Chars ''!?.'')), Eol],
     seqs Bol [Grp 1 (lits ''good morning'' [''good afternoon'', ''good evening'']),
               Star (Union Space (Chars ''!?.'')), Eol],
     seqs Wb [Grp 1 (lits ''what can you do'' [''how do you work'', ''help me'', ''show me how'']), Wb],
     seqs Wb [Grp 1 (lits ''who are you'' [''what are you'']), Wb]]"

definition create_patterns :: "regex list" where
  "create_patterns =
    [seqs Bol [Grp 1 (lits ''add'' [''create'', ''new'', ''make'', ''remind me to'',
                                     ''i need to'', ''todo:''])],
     seqs Wb [Grp 1 (lits ''add'' [''create'', ''remind me'']), Wb, Star Dot,
              Wb, Grp 2 (lits ''task'' [''todo'', ''to-do'', ''list'']), Wb]]"

definition retrieve_patterns :: "regex list" where
  "retrieve_patterns =
    [seqs Bol [Lit ''what'', Opt (Lit [CHR 0x27]), Opt (Lit ''s''), Lit '' on my''],
     seqs Bol [Lit ''do i have '', Opt (Grp 1 (Lit ''any '')), Lit ''task''],
     seqs Wb [Lit ''my '', Grp 1 (lits ''tasks'' [''todo'', ''to-do'', ''to do'', ''list'']), Wb],
     seqs Wb [Lit ''my task'', Wb, NotAhead (Lit '' is'')],
     seqs Wb [Grp 1 (lits ''what'' [''show'', ''list'', ''display'', ''get'', ''find'', ''see'',
                                     ''view'', ''check'']), Wb, Star Dot,
              Wb, Grp 2 (lits ''task'' [''todo'', ''to-do'', ''to do''])],
     seqs Wb [Grp 1 (lits ''task'' [''todo'', ''to-do'', ''to do'']), Star Dot,
              Wb, Grp 2 (lits ''what'' [''show'', ''list'', ''display'', ''do i have''])],
     seqs Wb [Grp 1 (lits ''what'' [''show'', ''list'', ''display'', ''get'', ''view'', ''check'']),
              Wb, Star Dot, Wb, Grp 2 (lits ''list'' [''todo list'', ''to-do list''])],
     seqs Wb [Lit ''on my '',
              Grp 1 (Alt (Lit ''list'') (Alt (Lit ''todo'') (Alt (Lit ''to-do'')
                      (Seq (Lit ''task'') (Opt (Lit ''s''))))))],
     seqs Bol [Grp 1 (lits ''my tasks'' [''show tasks'', ''list tasks'', ''check tasks'',
                                          ''view tasks''])],
     seqs Bol [Grp 1 (lits ''show'' [''check'', ''view'']), Lit '' '', Opt (Grp 2 (Lit ''my '')),
               Grp 3 (lits ''task'' [''todo'', ''to-do'', ''list''])],
     seqs Wb [Grp 1 (lits ''due today'' [''due tomorrow'', ''overdue'']), Wb],
     seqs Wb [Grp 1 (seqs (Lit ''task'') [Opt (Lit ''s''), Lit '' '',
                      Grp 2 (lits ''with'' [''labeled'', ''tagged''])]), Wb]]"

text \<open>
  \<open>detect_mode\<close>: blank input is chat; otherwise the trimmed, lower-cased message is
  tried against the three pattern lists in the source's order, and the default is
  \<open>CREATE\<close>.
\<close>

definition any_found :: "regex list \<Rightarrow> string \<Rightarrow> bool" where
  "any_found ps s = list_ex (\<lambda>p. found p s) ps"

definition detect_mode :: "string \<Rightarrow> Mode" where
  "detect_mode user_message =
     (if user_message = [] \<or> strip user_message = [] then CHAT
      else let message_lower = lower (strip user_message) in
        if any_found chat_patterns message_lower then CHAT
        else if any_found create_patterns message_lower then CREATE
        else if any_found retrieve_patterns message_lower then RETRIEVE
        else CREATE)"

section \<open>Python values\<close>

text \<open>
  What a JSON document decodes to, and so what a Todoist task dictionary and a service
  response hold. A dictionary is an association list in insertion order, its keys
  distinct. JSON numbers with a fraction or an exponent are not covered.
\<close>

datatype pyval =
    PNone
  | PBool bool
  | PInt int
  | PStr string
  | PList "pyval list"
  | PDict "(string \<times> pyval) list"

type_synonym pydict = "(string \<times> pyval) list"

definition dget :: "pydict \<Rightarrow> string \<Rightarrow> pyval option" where
  "dget d k = map_of d k"

text \<open>\<open>d.get(k)\<close> and \<open>d.get(k, default)\<close>.\<close>

definition get_or :: "pydict \<Rightarrow> string \<Rightarrow> pyval \<Rightarrow> pyval" where
  "get_or d k dflt = (case dget d k of None \<Rightarrow> dflt | Some v \<Rightarrow> v)"

fun truthy :: "pyval \<Rightarrow> bool" where
  "truthy PNone = False"
| "truthy (PBool b) = b"
| "truthy (PInt i) = (i \<noteq> 0)"
| "truthy (PStr s) = (s \<noteq> [])"
| "truthy (PList xs) = (xs \<noteq> [])"
| "truthy (PDict kvs) = (kvs \<noteq> [])"

fun join :: "string \<Rightarrow> string list \<Rightarrow> string" where
  "join sep [] = []"
| "join sep [x] = x"
| "join sep (x # y # ys) = x @ sep @ join sep (y # ys)"

fun dec :: "nat \<Rightarrow> string" where
  "dec n = (if n < 10 then [digit_chars ! n] else dec (n div 10) @ [digit_chars ! (n mod 10)])"

declare dec.simps [simp del]

definition str_int :: "int \<Rightarrow> string" where
  "str_int i = (if i < 0 then ''-'' @ dec (nat (- i)) else dec (nat i))"

definition nl :: string where
  "nl = [CHR 0x0A]"

definition squote :: char where
  "squote = CHR 0x27"

definition dquote :: char where
  "dquote = CHR 0x22"

definition backslash :: char where
  "backslash = CHR 0x5C"

definition hex_digit :: "nat \<Rightarrow> char" where
  "hex_digit n = ''0123456789abcdef'' ! n"

text \<open>\<open>repr\<close> of a string: the quote is chosen and the characters escaped as CPython does.\<close>

definition repr_char :: "char \<Rightarrow> char \<Rightarrow> string" where
  "repr_char q c =
     (if c = q \<or> c = backslash then [backslash, c]
      else if c = CHR 0x09 then [backslash, CHR ''t'']
      else if c = CHR 0x0A then [backslash, CHR ''n'']
      else if c = CHR 0x0D then [backslash, CHR ''r'']
      else if (of_char c :: nat) < 32 \<or> c = CHR 0x7F
        then [backslash, CHR ''x'', hex_digit (of_char c div 16), hex_digit (of_char c mod 16)]
      else [c])"

definition repr_str :: "string \<Rightarrow> string" where
  "repr_str s =
     (let q = (if squote \<in> set s \<and> dquote \<notin> set s then dquote else squote)
      in [q] @ concat (map (repr_char q) s) @ [q])"

fun py_repr :: "pyval \<Rightarrow> string" where
  "py_repr PNone = ''None''"
| "py_repr (PBool b) = (if b then ''True'' else ''False'')"
| "py_repr (PInt i) = str_int i"
| "py_repr (PStr s) = repr_str s"
| "py_repr (PList xs) = ''['' @ join '', '' (map py_repr xs) @ '']''"
| "py_repr (PDict kvs) =
     ''{'' @ join '', '' (map (\<lambda>kv. repr_str (fst kv) @ '': '' @ py_repr (snd kv)) kvs) @ ''}''"

text \<open>\<open>str(v)\<close>, which is also how an f-string renders \<open>{v}\<close>.\<close>

definition py_str :: "pyval \<Rightarrow> string" where
  "py_str v = (case v of PStr s \<Rightarrow> s | _ \<Rightarrow> py_repr v)"

datatype py_error = TypeError | AttributeError

section \<open>Task links (\<open>app/todoist_links.py\<close>)\<close>

definition build_task_url :: "pydict option \<Rightarrow> string option" where
  "build_task_url task =
     (case task of
        None \<Rightarrow> None
      | Some t \<Rightarrow>
          if (case dget t ''url'' of None \<Rightarrow> False | Some u \<Rightarrow> truthy u)
          then Some (py_str (get_or t ''url'' PNone))
          else let task_id = get_or t ''id'' PNone in
            if \<not> truthy task_id then None
            else Some (''https://app.todoist.com/app/task/'' @ py_str task_id))"

section \<open>Task listing (\<open>app/task_formatter.py\<close>)\<close>

definition sparkles :: string where
  "sparkles = [CHR 0xE2, CHR 0x9C, CHR 0xA8]"

definition calendar :: string where
  "calendar = [CHR 0xF0, CHR 0x9F, CHR 0x93, CHR 0x85]"

definition middot :: string where
  "middot = [CHR 0xC2, CHR 0xB7]"

definition sep :: string where
  "sep = '' '' @ middot @ '' ''"

text \<open>\<open>"T" in v\<close>: a substring test on a string, membership on a list or a dictionary.\<close>

fun contains_T :: "pyval \<Rightarrow> py_error + bool" where
  "contains_T (PStr s) = Inr (CHR ''T'' \<in> set s)"
| "contains_T (PList xs) = Inr (PStr ''T'' \<in> set xs)"
| "contains_T (PDict kvs) = Inr (''T'' \<in> set (map fst kvs))"
| "contains_T _ = Inl TypeError"

text \<open>The due-date part of a line (\<open>None\<close> when the task shows no date).\<close>

definition due_part :: "pydict \<Rightarrow> py_error + string option" where
  "due_part task =
     (case dget task ''due'' of
        None \<Rightarrow> Inr None
      | Some due \<Rightarrow>
          if \<not> truthy due then Inr None
          else (case due of
              PDict d \<Rightarrow>
                (let first = get_or d ''date'' PNone;
                     due_date = (if truthy first then first else get_or d ''datetime'' (PStr []))
                 in if \<not> truthy due_date then Inr None
                    else (case contains_T due_date of
                        Inl e \<Rightarrow> Inl e
                      | Inr True \<Rightarrow>
                          (case due_date of
                             PStr s \<Rightarrow> Inr (Some (calendar @ '' '' @ takeWhile (\<lambda>c. c \<noteq> CHR ''T'') s))
                           | _ \<Rightarrow> Inl AttributeError)
                      | Inr False \<Rightarrow> Inr (Some (calendar @ '' '' @ py_str due_date))))
            | _ \<Rightarrow> Inl AttributeError))"

text \<open>What a \<open>for\<close> loop over a value visits.\<close>

fun py_iter :: "pyval \<Rightarrow> py_error + pyval list" where
  "py_iter (PList xs) = Inr xs"
| "py_iter (PStr s) = Inr (map (\<lambda>c. PStr [c]) s)"
| "py_iter (PDict kvs) = Inr (map (\<lambda>kv. PStr (fst kv)) kvs)"
| "py_iter _ = Inl TypeError"

definition labels_part :: "pydict \<Rightarrow> py_error + string option" where
  "labels_part task =
     (let labels = get_or task ''labels'' (PList []) in
      if \<not> truthy labels then Inr None
      else (case py_iter labels of
          Inl e \<Rightarrow> Inl e
        | Inr items \<Rightarrow> Inr (Some (join '', '' (map (\<lambda>label. ''_'' @ py_str label @ ''_'') items)))))"

fun opt_list :: "'a option \<Rightarrow> 'a list" where
  "opt_list None = []"
| "opt_list (Some x) = [x]"

text \<open>The line of one task before the link is added: its parts joined by the separator.\<close>

definition task_body :: "pydict \<Rightarrow> py_error + string" where
  "task_body task =
     (let content = get_or task ''content'' (PStr ''Untitled task'') in
      case due_part task of
        Inl e \<Rightarrow> Inl e
      | Inr due \<Rightarrow>
          (case labels_part task of
             Inl e \<Rightarrow> Inl e
           | Inr labels \<Rightarrow>
               Inr (join sep ([''**'' @ py_str content @ ''**''] @ opt_list due @ opt_list labels))))"

definition format_task_line :: "pydict \<Rightarrow> py_error + string" where
  "format_task_line task =
     (case task_body task of
        Inl e \<Rightarrow> Inl e
      | Inr task_line \<Rightarrow>
          (case build_task_url (Some task) of
             None \<Rightarrow> Inr (''- '' @ task_line)
           | Some task_url \<Rightarrow>
               if task_url = [] then Inr (''- '' @ task_line)
               else Inr (''- '' @ task_line @ sep @ ''[View in Todoist]('' @ task_url @ '')'')))"

fun format_lines :: "pydict list \<Rightarrow> py_error + string list" where
  "format_lines [] = Inr []"
| "format_lines (task # tasks) =
     (case format_task_line task of
        Inl e \<Rightarrow> Inl e
      | Inr l \<Rightarrow> (case format_lines tasks of Inl e \<Rightarrow> Inl e | Inr ls \<Rightarrow> Inr (l # ls)))"

definition given :: "string option \<Rightarrow> bool" where
  "given filter_description = (case filter_description of None \<Rightarrow> False | Some f \<Rightarrow> f \<noteq> [])"

definition empty_msg :: "string option \<Rightarrow> string" where
  "empty_msg filter_description =
     ''You don't have any active tasks right now. '' @ sparkles @ nl @ nl
     @ (if given filter_description
        then ''No tasks found '' @ the filter_description @ ''.'' @ nl @ nl else [])
     @ ''Try creating a task like:'' @ nl
     @ ''- '' @ [dquote] @ ''Buy groceries tomorrow'' @ [dquote] @ nl
     @ ''- '' @ [dquote] @ ''Call dentist at 2pm'' @ [dquote] @ nl
     @ ''- '' @ [dquote] @ ''Review project proposal'' @ [dquote]"

definition header :: "nat \<Rightarrow> string option \<Rightarrow> string" where
  "header count filter_description =
     (let item_word = (if count = 1 then ''item'' else ''items'') in
      if given filter_description
      then ''### Tasks '' @ the filter_description @ '' ('' @ dec count @ '' '' @ item_word @ '')'' @ nl @ nl
      else ''### Your Tasks ('' @ dec count @ '' '' @ item_word @ '')'' @ nl @ nl)"

definition format_task_list :: "pydict list \<Rightarrow> string option \<Rightarrow> py_error + string" where
  "format_task_list tasks filter_description =
     (if tasks = [] then Inr (empty_msg filter_description)
      else (case format_lines tasks of
          Inl e \<Rightarrow> Inl e
        | Inr task_lines \<Rightarrow> Inr (header (length tasks) filter_description @ join nl task_lines)))"

section \<open>Retrieval filter (\<open>handle_retrieve_mode\<close> in \<open>app/main.py\<close>)\<close>

text \<open>The two patterns of lines 228 and 233 to 235.\<close>

definition due_today_pattern :: regex where
  "due_today_pattern =
     seqs Wb [Opt (Grp 1 (Seq (Lit ''due'') (Plus Space))), Lit ''today'', Wb]"

definition label_pattern :: regex where
  "label_pattern =
     seqs Wb [Alt (Seq (Lit ''labele'') (Opt (Lit ''d'')))
                (Alt (Seq (Lit ''tagge'') (Opt (Lit ''d'')))
                     (seqs (Lit ''with'') [Plus Space, Lit ''label''])),
              Plus Space, Opt (One (Chars [dquote, squote])),
              Grp 1 (Plus WordCh), Opt (One (Chars [dquote, squote]))]"

record retrieval_filter =
  due_date :: "string option"
  label :: "string option"
  filter_desc :: "string option"

text \<open>\<open>m.group(n)\<close> for a match \<open>m\<close>.\<close>

fun group :: "mstate \<Rightarrow> nat \<Rightarrow> string option" where
  "group (p, r, g) n = map_of g n"

text \<open>
  The filter parameters that \<open>handle_retrieve_mode\<close> computes from the message before
  it calls the task store.
\<close>

definition retrieve_filter :: "string \<Rightarrow> retrieval_filter" where
  "retrieve_filter user_message =
     (let message_lower = lower user_message;
          f0 = \<lparr>due_date = None, label = None, filter_desc = None\<rparr>;
          f1 = (if found due_today_pattern message_lower
                then f0\<lparr>due_date := Some ''today'', filter_desc := Some ''due today''\<rparr>
                else f0)
      in case re_search label_pattern message_lower of
           None \<Rightarrow> f1
         | Some label_match \<Rightarrow>
             f1\<lparr>label := group label_match 1,
                filter_desc := Some (''labeled '' @ [squote]
                   @ (case group label_match 1 of None \<Rightarrow> ''None'' | Some l \<Rightarrow> l) @ [squote])\<rparr>)"

section \<open>Task extraction (\<open>app/llm_service.py\<close>)\<close>

record TodoistTask =
  content :: string
  description :: "string option"
  priority :: int
  due_string :: "string option"
  labels :: "string list"
  project_id :: "string option"

text \<open>
  \<open>TodoistTask\<close> is a validated model: a response becomes a task only through the checks
  that the field declarations ask of the validation library. As modelled here: the
  response must be an object; a key that is absent takes the declared default, and is an
  error when the field has none; a key that is present is checked against the declared
  type and bounds, a string field taking JSON strings only; keys that are not fields are
  ignored.
\<close>

text \<open>What the validation of one field can report.\<close>

datatype field_error =
    Missing string            \<comment> \<open>a required field is absent\<close>
  | BadType string pyval      \<comment> \<open>the value has the wrong type\<close>
  | TooSmall string int       \<comment> \<open>below the \<open>ge\<close> bound\<close>
  | TooLarge string int       \<comment> \<open>above the \<open>le\<close> bound\<close>
  | NotAnObject pyval         \<comment> \<open>the response is not a JSON object\<close>

text \<open>\<open>content: str\<close>, with no default: the field is required.\<close>

definition content_field :: "pydict \<Rightarrow> field_error + string" where
  "content_field d =
     (case dget d ''content'' of
        None \<Rightarrow> Inl (Missing ''content'')
      | Some (PStr s) \<Rightarrow> Inr s
      | Some v \<Rightarrow> Inl (BadType ''content'' v))"

text \<open>A field \<open>str | None\<close> with a default, used when the key is absent.\<close>

definition opt_str_field :: "pydict \<Rightarrow> string \<Rightarrow> string option \<Rightarrow> field_error + string option" where
  "opt_str_field d k dflt =
     (case dget d k of
        None \<Rightarrow> Inr dflt
      | Some PNone \<Rightarrow> Inr None
      | Some (PStr s) \<Rightarrow> Inr (Some s)
      | Some v \<Rightarrow> Inl (BadType k v))"

text \<open>
  \<open>priority: int\<close> with \<open>default=3, ge=1, le=4\<close>. The conversion of a JSON value to
  an integer belongs to the validation library; it is the parameter \<open>to_int\<close>.
\<close>

definition priority_field :: "(pyval \<Rightarrow> int option) \<Rightarrow> pydict \<Rightarrow> field_error + int" where
  "priority_field to_int d =
     (case dget d ''priority'' of
        None \<Rightarrow> Inr 3
      | Some v \<Rightarrow>
          (case to_int v of
             None \<Rightarrow> Inl (BadType ''priority'' v)
           | Some n \<Rightarrow>
               if n < 1 then Inl (TooSmall ''priority'' n)
               else if 4 < n then Inl (TooLarge ''priority'' n)
               else Inr n))"

fun str_items :: "pyval list \<Rightarrow> string list option" where
  "str_items [] = Some []"
| "str_items (PStr s # vs) = (case str_items vs of None \<Rightarrow> None | Some ss \<Rightarrow> Some (s # ss))"
| "str_items (_ # vs) = None"

text \<open>\<open>labels: list[str]\<close> with \<open>default_factory=list\<close>.\<close>

definition labels_field :: "pydict \<Rightarrow> field_error + string list" where
  "labels_field d =
     (case dget d ''labels'' of
        None \<Rightarrow> Inr []
      | Some (PList vs) \<Rightarrow>
          (case str_items vs of None \<Rightarrow> Inl (BadType ''labels'' (PList vs)) | Some ss \<Rightarrow> Inr ss)
      | Some v \<Rightarrow> Inl (BadType ''labels'' v))"

fun errs :: "field_error + 'a \<Rightarrow> field_error list" where
  "errs (Inl e) = [e]"
| "errs (Inr _) = []"

text \<open>
  Validation of a decoded response against the fields of \<open>TodoistTask\<close>: every field is
  checked, and the errors of all fields are reported together.
\<close>

definition validate_task :: "(pyval \<Rightarrow> int option) \<Rightarrow> pyval \<Rightarrow> field_error list + TodoistTask" where
  "validate_task to_int obj =
     (case obj of
        PDict d \<Rightarrow>
          (let c = content_field d;
               ds = opt_str_field d ''description'' (Some []);
               pr = priority_field to_int d;
               du = opt_str_field d ''due_string'' None;
               ls = labels_field d;
               pj = opt_str_field d ''project_id'' None
           in case (c, ds, pr, du, ls, pj) of
                (Inr c', Inr ds', Inr pr', Inr du', Inr ls', Inr pj') \<Rightarrow>
                  Inr \<lparr>content = c', description = ds', priority = pr', due_string = du',
                       labels = ls', project_id = pj'\<rparr>
              | _ \<Rightarrow> Inl (errs c @ errs ds @ errs pr @ errs du @ errs ls @ errs pj))
      | _ \<Rightarrow> Inl [NotAnObject obj])"

text \<open>The exceptions that can reach the handler of \<open>parse_task\<close>.\<close>

datatype parse_exn =
    ServiceFailure string                   \<comment> \<open>the model invocation raised\<close>
  | InvalidJson string                      \<comment> \<open>the response text is not JSON\<close>
  | ValidationFailed string "field_error list"  \<comment> \<open>the response text and what is wrong in it\<close>

text \<open>\<open>ValueError(message) from e\<close>: the message and the cause.\<close>

datatype value_error = ValueError string parse_exn

text \<open>
  The collaborators of \<open>parse_task\<close> that are not code of this repository: the model
  (what it answers to the \<open>n\<close>-th invocation on an input, or the message of the exception
  it raises), the JSON decoder of the output parser, the integer conversion of the
  validation library, and the text \<open>str(e)\<close> of an exception.
\<close>

record services =
  invoke :: "nat \<Rightarrow> string \<Rightarrow> string + string"
  decode_json :: "string \<Rightarrow> pyval option"
  to_int :: "pyval \<Rightarrow> int option"
  exn_text :: "parse_exn \<Rightarrow> string"

definition parser_parse :: "services \<Rightarrow> string \<Rightarrow> parse_exn + TodoistTask" where
  "parser_parse sv text =
     (case decode_json sv text of
        None \<Rightarrow> Inl (InvalidJson text)
      | Some obj \<Rightarrow>
          (case validate_task (to_int sv) obj of
             Inl es \<Rightarrow> Inl (ValidationFailed text es)
           | Inr task \<Rightarrow> Inr task))"

definition failure :: "services \<Rightarrow> parse_exn \<Rightarrow> value_error" where
  "failure sv e =
     ValueError (''Failed to parse task from input: '' @ exn_text sv e @ nl
                 @ ''Please try rephrasing your request or provide more specific details.'') e"

text \<open>
  \<open>parse_task\<close> on the \<open>calls\<close>-th invocation of the model: the result, and the number
  of invocations made so far afterwards.
\<close>

definition parse_task :: "services \<Rightarrow> nat \<Rightarrow> string \<Rightarrow> (value_error + TodoistTask) \<times> nat" where
  "parse_task sv calls user_input =
     (case invoke sv calls user_input of
        Inl m \<Rightarrow> (Inl (failure sv (ServiceFailure m)), Suc calls)
      | Inr response \<Rightarrow>
          (case parser_parse sv response of
             Inl e \<Rightarrow> (Inl (failure sv e), Suc calls)
           | Inr task \<Rightarrow> (Inr task, Suc calls)))"

text \<open>
  A stand-in for the collaborators, as the repository's tests use one: the model always
  answers \<open>text\<close>, which decodes to \<open>obj\<close>; only JSON integers convert to \<open>int\<close>.
\<close>

fun json_int :: "pyval \<Rightarrow> int option" where
  "json_int (PInt n) = Some n"
| "json_int _ = None"

fun exn_message :: "parse_exn \<Rightarrow> string" where
  "exn_message (ServiceFailure m) = m"
| "exn_message (InvalidJson t) = ''Invalid json output: '' @ t"
| "exn_message (ValidationFailed t es) = ''Failed to parse TodoistTask from completion '' @ t"

definition mock_services :: "string \<Rightarrow> pyval option \<Rightarrow> services" where
  "mock_services text obj =
     \<lparr>invoke = (\<lambda>n inp. Inr text), decode_json = (\<lambda>t. if t = text then obj else None),
      to_int = json_int, exn_text = exn_message\<rparr>"

section \<open>The shape of a task from the task store\<close>

text \<open>
  \<open>format_task_list\<close> takes the task dictionaries that the Todoist API returns: \<open>due\<close> is
  absent, null or an object whose \<open>date\<close> and \<open>datetime\<close> are strings or null, and
  \<open>labels\<close> is absent, null or a list. On other values of these two fields the function
  raises, as \<open>due_part\<close> and \<open>labels_part\<close> show.
\<close>

fun str_or_none :: "pyval \<Rightarrow> bool" where
  "str_or_none PNone = True"
| "str_or_none (PStr s) = True"
| "str_or_none _ = False"

fun list_or_none :: "pyval \<Rightarrow> bool" where
  "list_or_none PNone = True"
| "list_or_none (PList xs) = True"
| "list_or_none _ = False"

fun due_ok :: "pyval \<Rightarrow> bool" where
  "due_ok PNone = True"
| "due_ok (PDict d) = (str_or_none (get_or d ''date'' PNone) \<and> str_or_none (get_or d ''datetime'' PNone))"
| "due_ok _ = False"

definition api_task :: "pydict \<Rightarrow> bool" where
  "api_task t = (due_ok (get_or t ''due'' PNone) \<and> list_or_none (get_or t ''labels'' PNone))"


section \<open>Properties of mode detection\<close>

lemma scan_hit: "ms rx (p, r, []) \<noteq> [] \<Longrightarrow> scan rx p r \<noteq> None"
  by (cases r) (auto split: list.splits)

lemma leading_verb_found:
  assumes "prefix ''add'' m \<or> prefix ''remind me to'' m \<or> prefix ''todo:'' m"
  shows "found (create_patterns ! 0) m"
proof -
  let ?alts = "lits ''add'' [''create'', ''new'', ''make'', ''remind me to'', ''i need to'', ''todo:'']"
  have "ms ?alts (None, m, []) \<noteq> []"
    using assms by auto
  then have "ms (seqs Bol [Grp 1 ?alts]) (None, m, []) \<noteq> []"
    by simp
  then show ?thesis
    unfolding found_def re_search_def create_patterns_def
    by (simp add: scan_hit)
qed


lemma create_needs_text: "\<not> any_found create_patterns []"
  by (simp add: any_found_def create_patterns_def found_def re_search_def)

text \<open>
  Claim C1, as amended. The claim as written (every input that contains ``add'',
  ``remind me to'' or ``todo:'' is classified \<open>CREATE\<close>) does not hold: the conversation
  patterns are tried first, and the first creation pattern asks for the verb at the start
  of the message. What holds, for a message whose trimmed, lower-cased text matches no
  conversation pattern: if that text matches a creation pattern the result is
  \<open>CREATE\<close>, whatever retrieval pattern it also matches; and a text that begins with
  ``add'', ``remind me to'' or ``todo:'' does match one.
\<close>

theorem create_precedence:
  assumes "\<not> any_found chat_patterns (lower (strip s))"
  shows "(any_found create_patterns (lower (strip s)) \<longrightarrow> detect_mode s = CREATE)
       \<and> (prefix ''add'' (lower (strip s)) \<or> prefix ''remind me to'' (lower (strip s))
            \<or> prefix ''todo:'' (lower (strip s))
          \<longrightarrow> any_found create_patterns (lower (strip s)) \<and> detect_mode s = CREATE)"
proof -
  have a: "any_found create_patterns (lower (strip s)) \<longrightarrow> detect_mode s = CREATE"
  proof
    assume c: "any_found create_patterns (lower (strip s))"
    with create_needs_text have "lower (strip s) \<noteq> []" by metis
    then have "strip s \<noteq> []" "s \<noteq> []" by (auto simp: lower_def strip_def)
    with c assms show "detect_mode s = CREATE" by (simp add: detect_mode_def Let_def)
  qed
  have b: "prefix ''add'' (lower (strip s)) \<or> prefix ''remind me to'' (lower (strip s))
            \<or> prefix ''todo:'' (lower (strip s))
          \<longrightarrow> any_found create_patterns (lower (strip s))"
  proof
    assume "prefix ''add'' (lower (strip s)) \<or> prefix ''remind me to'' (lower (strip s))
            \<or> prefix ''todo:'' (lower (strip s))"
    from leading_verb_found[OF this] show "any_found create_patterns (lower (strip s))"
      by (simp add: any_found_def create_patterns_def)
  qed
  from a b show ?thesis by blast
qed

theorem create_precedence_witness:
  "\<not> any_found chat_patterns (lower (strip ''Add buy milk to my list''))
   \<and> prefix ''add'' (lower (strip ''Add buy milk to my list''))
   \<and> any_found retrieve_patterns (lower (strip ''Add buy milk to my list''))
   \<and> detect_mode ''Add buy milk to my list'' = CREATE
   \<and> \<not> any_found chat_patterns (lower (strip ''please add milk to my list''))
   \<and> any_found create_patterns (lower (strip ''please add milk to my list''))
   \<and> any_found retrieve_patterns (lower (strip ''please add milk to my list''))
   \<and> detect_mode ''please add milk to my list'' = CREATE"
proof -
  have a: "\<not> any_found chat_patterns (lower (strip ''Add buy milk to my list''))" by code_simp
  have b: "prefix ''add'' (lower (strip ''Add buy milk to my list''))" by code_simp
  have c: "any_found retrieve_patterns (lower (strip ''Add buy milk to my list''))" by code_simp
  have d: "\<not> any_found chat_patterns (lower (strip ''please add milk to my list''))" by code_simp
  have e: "any_found create_patterns (lower (strip ''please add milk to my list''))" by code_simp
  have f: "any_found retrieve_patterns (lower (strip ''please add milk to my list''))" by code_simp
  from create_precedence[OF a] b have g: "detect_mode ''Add buy milk to my list'' = CREATE"
    by blast
  from create_precedence[OF d] e have h: "detect_mode ''please add milk to my list'' = CREATE"
    by blast
  from a b c d e f g h show ?thesis by blast
qed

text \<open>
  Two inputs that contain the verb ``add'' and are not classified \<open>CREATE\<close>: the first
  matches the conversation pattern for ``help me'', the second has the verb after the
  start and no task noun after it, and matches the retrieval pattern for ``my list''.
\<close>

theorem create_precedence_counterexample:
  "detect_mode ''add a reminder to help me'' = CHAT \<and> detect_mode ''show my list and add it'' = RETRIEVE"
  by code_simp

text \<open>
  Claim C2. ``My task is to finish the report'' is classified \<open>CREATE\<close> and ``my tasks''
  \<open>RETRIEVE\<close>. The possessive pattern (the third retrieval pattern) matches ``my tasks'',
  the pattern with the negative lookahead (the fourth) matches ``my task'' alone, the same
  pattern without its lookahead would match the statement, and no retrieval pattern
  matches the statement.
\<close>

theorem my_task_boundary:
  "detect_mode ''My task is to finish the report'' = CREATE
   \<and> detect_mode ''my tasks'' = RETRIEVE
   \<and> found (retrieve_patterns ! 2) ''my tasks''
   \<and> found (retrieve_patterns ! 3) ''my task''
   \<and> re_search (Seq Wb (Seq (Lit ''my task'') Wb)) ''my task is to finish the report'' \<noteq> None
   \<and> list_all (\<lambda>p. re_search p ''my task is to finish the report'' = None) retrieve_patterns"
  by code_simp



section \<open>Properties of task extraction\<close>













text \<open>
  Claim C6. A response that decodes to an object with the single key \<open>content\<close>
  yields that content with an empty description, priority 3, no due string, no labels and
  no project.
\<close>

theorem minimal_response_defaults:
  assumes "invoke sv n inp = Inr reply"
      and "decode_json sv reply = Some (PDict [(''content'', PStr c)])"
  shows "parse_task sv n inp =
           (Inr \<lparr>content = c, description = Some [], priority = 3, due_string = None,
                 labels = [], project_id = None\<rparr>, Suc n)"
  using assms
  by (simp add: parse_task_def parser_parse_def validate_task_def content_field_def
      opt_str_field_def priority_field_def labels_field_def dget_def Let_def)

theorem minimal_response_defaults_witness:
  "invoke (mock_services ''minimal'' (Some (PDict [(''content'', PStr ''Test task'')]))) 0 ''Test'' = Inr ''minimal''
   \<and> decode_json (mock_services ''minimal'' (Some (PDict [(''content'', PStr ''Test task'')]))) ''minimal''
        = Some (PDict [(''content'', PStr ''Test task'')])
   \<and> parse_task (mock_services ''minimal'' (Some (PDict [(''content'', PStr ''Test task'')]))) 0 ''Test''
        = (Inr \<lparr>content = ''Test task'', description = Some [], priority = 3, due_string = None,
                 labels = [], project_id = None\<rparr>, 1)"
proof -
  let ?s = "mock_services ''minimal'' (Some (PDict [(''content'', PStr ''Test task'')]))"
  have i: "invoke ?s 0 ''Test'' = Inr ''minimal''"
    and j: "decode_json ?s ''minimal'' = Some (PDict [(''content'', PStr ''Test task'')])"
    by (simp_all add: mock_services_def)
  from minimal_response_defaults[OF i j] i j show ?thesis by simp
qed

section \<open>Properties of the task listing\<close>

lemma truthy_str: "str_or_none v \<Longrightarrow> truthy v \<Longrightarrow> \<exists>s. v = PStr s"
  by (cases v) simp_all

lemma due_part_str:
  assumes "str_or_none v" "truthy v"
  shows "\<exists>x. (case contains_T v of
                        Inl e \<Rightarrow> Inl e
                      | Inr True \<Rightarrow>
                          (case v of
                             PStr s \<Rightarrow> Inr (Some (calendar @ '' '' @ takeWhile (\<lambda>c. c \<noteq> CHR ''T'') s))
                           | _ \<Rightarrow> Inl AttributeError)
                      | Inr False \<Rightarrow> Inr (Some (calendar @ '' '' @ py_str v))) = (Inr x :: py_error + string option)"
proof -
  from truthy_str[OF assms] obtain s where "v = PStr s" ..
  then show ?thesis by (cases "CHR ''T'' \<in> set s") simp_all
qed

lemma due_part_total: "due_ok (get_or t ''due'' PNone) \<Longrightarrow> \<exists>x. due_part t = Inr x"
proof -
  assume ok: "due_ok (get_or t ''due'' PNone)"
  show ?thesis
  proof (cases "dget t ''due''")
    case None
    then show ?thesis by (simp add: due_part_def)
  next
    case (Some due)
    with ok have dk: "due_ok due" by (simp add: get_or_def)
    show ?thesis
    proof (cases "truthy due")
      case False
      with Some show ?thesis by (simp add: due_part_def)
    next
      case True
      with dk obtain d where d: "due = PDict d" by (cases due) simp_all
      let ?first = "get_or d ''date'' PNone"
      let ?dd = "if truthy ?first then ?first else get_or d ''datetime'' (PStr [])"
      have sn: "str_or_none ?dd"
        using dk d by (auto simp: get_or_def split: option.splits)
      show ?thesis
      proof (cases "truthy ?dd")
        case False
        with Some True d show ?thesis by (simp add: due_part_def Let_def)
      next
        case t2: True
        from due_part_str[OF sn t2] obtain x where "(case contains_T ?dd of
                        Inl e \<Rightarrow> Inl e
                      | Inr True \<Rightarrow>
                          (case ?dd of
                             PStr s \<Rightarrow> Inr (Some (calendar @ '' '' @ takeWhile (\<lambda>c. c \<noteq> CHR ''T'') s))
                           | _ \<Rightarrow> Inl AttributeError)
                      | Inr False \<Rightarrow> Inr (Some (calendar @ '' '' @ py_str ?dd))) = (Inr x :: py_error + string option)" ..
        with Some True d t2 show ?thesis by (simp add: due_part_def Let_def)
      qed
    qed
  qed
qed

lemma labels_part_total: "list_or_none (get_or t ''labels'' PNone) \<Longrightarrow> \<exists>x. labels_part t = Inr x"
proof -
  assume ok: "list_or_none (get_or t ''labels'' PNone)"
  have "list_or_none (get_or t ''labels'' (PList []))"
    using ok by (auto simp: get_or_def split: option.splits)
  then show ?thesis
    by (cases "get_or t ''labels'' (PList [])") (simp_all add: labels_part_def Let_def)
qed

lemma task_body_total:
  assumes "api_task t"
  shows "\<exists>rest. task_body t = Inr (''**'' @ py_str (get_or t ''content'' (PStr ''Untitled task'')) @ ''**'' @ rest)"
proof -
  from assms have "due_ok (get_or t ''due'' PNone)" and "list_or_none (get_or t ''labels'' PNone)"
    by (simp_all add: api_task_def)
  then obtain x y where x: "due_part t = Inr x" and y: "labels_part t = Inr y"
    using due_part_total[of t] labels_part_total[of t] by blast
  have j: "\<And>a xs. \<exists>rest. join sep (a # xs) = a @ rest"
  proof -
    fix a :: string and xs show "\<exists>rest. join sep (a # xs) = a @ rest" by (cases xs) simp_all
  qed
  from j[of "''**'' @ py_str (get_or t ''content'' (PStr ''Untitled task'')) @ ''**''" "opt_list x @ opt_list y"]
  show ?thesis using x y by (simp add: task_body_def Let_def)
qed

lemma dec_nonempty: "dec n \<noteq> []"
  by (subst dec.simps) simp

lemma py_str_nonempty: "truthy v \<Longrightarrow> py_str v \<noteq> []"
  by (cases v) (simp_all add: py_str_def str_int_def dec_nonempty)

lemma build_task_url_nonempty: "build_task_url (Some t) = Some u \<Longrightarrow> u \<noteq> []"
  by (auto simp: build_task_url_def Let_def get_or_def py_str_nonempty split: option.splits if_splits)

lemma format_task_line_link:
  assumes "task_body t = Inr body"
  shows "format_task_line t =
     Inr (''- '' @ body @ (case build_task_url (Some t) of None \<Rightarrow> []
                           | Some url \<Rightarrow> sep @ ''[View in Todoist]('' @ url @ '')''))"
proof (cases "build_task_url (Some t)")
  case None
  with assms show ?thesis by (simp add: format_task_line_def)
next
  case (Some u)
  with build_task_url_nonempty[OF Some] assms show ?thesis by (simp add: format_task_line_def)
qed

lemma format_lines_total:
  "list_all api_task tasks \<Longrightarrow>
   \<exists>ls. format_lines tasks = Inr ls \<and> length ls = length tasks
        \<and> (\<forall>i < length tasks. format_task_line (tasks ! i) = Inr (ls ! i))"
proof (induction tasks)
  case Nil
  then show ?case by simp
next
  case (Cons t tasks)
  then obtain ls where ls: "format_lines tasks = Inr ls" "length ls = length tasks"
      "\<forall>i < length tasks. format_task_line (tasks ! i) = Inr (ls ! i)" by auto
  from Cons.prems have "api_task t" by simp
  from task_body_total[OF this] obtain b where b: "task_body t = Inr b" by blast
  from format_task_line_link[OF b] obtain l where l: "format_task_line t = Inr l" by blast
  have "\<forall>i < length (t # tasks). format_task_line ((t # tasks) ! i) = Inr ((l # ls) ! i)"
    using ls(3) l by (auto simp: nth_Cons split: nat.splits)
  with ls l show ?case by auto
qed

text \<open>
  Claim C7. The empty list with the filter description ``due today'' renders a message
  that contains ``No tasks found due today''. A non-empty list of tasks from the task
  store renders a text that begins with a header holding the decimal count of the tasks,
  followed by ``item'' when the count is 1 and by ``items'' otherwise.
\<close>

theorem listing_header:
  "(\<exists>pre post. format_task_list [] (Some ''due today'')
        = Inr (pre @ ''No tasks found due today'' @ post))
   \<and> (tasks \<noteq> [] \<longrightarrow> list_all api_task tasks \<longrightarrow>
        (\<exists>title body. format_task_list tasks fd =
            Inr (''### '' @ title @ '' ('' @ dec (length tasks) @ '' ''
                 @ (if length tasks = 1 then ''item'' else ''items'') @ '')'' @ nl @ nl @ body)))"
proof -
  have "format_task_list [] (Some ''due today'')
        = Inr ((''You don't have any active tasks right now. '' @ sparkles @ nl @ nl)
               @ ''No tasks found due today''
               @ (''.'' @ nl @ nl @ ''Try creating a task like:'' @ nl
     @ ''- '' @ [dquote] @ ''Buy groceries tomorrow'' @ [dquote] @ nl
     @ ''- '' @ [dquote] @ ''Call dentist at 2pm'' @ [dquote] @ nl
     @ ''- '' @ [dquote] @ ''Review project proposal'' @ [dquote]))"
    by (simp add: format_task_list_def empty_msg_def given_def)
  then have a: "\<exists>pre post. format_task_list [] (Some ''due today'')
        = Inr (pre @ ''No tasks found due today'' @ post)" by blast
  have b: "tasks \<noteq> [] \<longrightarrow> list_all api_task tasks \<longrightarrow>
        (\<exists>title body. format_task_list tasks fd =
            Inr (''### '' @ title @ '' ('' @ dec (length tasks) @ '' ''
                 @ (if length tasks = 1 then ''item'' else ''items'') @ '')'' @ nl @ nl @ body))"
  proof (intro impI)
    assume ne: "tasks \<noteq> []" and ok: "list_all api_task tasks"
    from format_lines_total[OF ok] obtain ls where ls: "format_lines tasks = Inr ls" by blast
    let ?n = "length tasks"
    let ?w = "if ?n = 1 then ''item'' else ''items''"
    have h: "header ?n fd = ''### '' @ (if given fd then ''Tasks '' @ the fd else ''Your Tasks'')
               @ '' ('' @ dec ?n @ '' '' @ ?w @ '')'' @ nl @ nl"
      by (simp add: header_def Let_def)
    have "format_task_list tasks fd = Inr (header ?n fd @ join nl ls)"
      using ne ls by (simp add: format_task_list_def)
    then have "format_task_list tasks fd = Inr (''### '' @ (if given fd then ''Tasks '' @ the fd else ''Your Tasks'')
               @ '' ('' @ dec ?n @ '' '' @ ?w @ '')'' @ nl @ nl @ join nl ls)"
      unfolding h by simp
    then show "\<exists>title body. format_task_list tasks fd =
            Inr (''### '' @ title @ '' ('' @ dec (length tasks) @ '' ''
                 @ (if length tasks = 1 then ''item'' else ''items'') @ '')'' @ nl @ nl @ body)"
      by blast
  qed
  from a b show ?thesis by blast
qed

theorem listing_header_witness:
  "[[(''id'', PStr ''1''), (''content'', PStr ''Buy milk'')]] \<noteq> []
   \<and> list_all api_task [[(''id'', PStr ''1''), (''content'', PStr ''Buy milk'')]]
   \<and> (\<exists>title body. format_task_list [[(''id'', PStr ''1''), (''content'', PStr ''Buy milk'')]] None
          = Inr (''### '' @ title @ '' (1 item)'' @ nl @ nl @ body))"
proof -
  let ?ts = "[[(''id'', PStr ''1''), (''content'', PStr ''Buy milk'')]]"
  have a: "?ts \<noteq> []" by simp
  have b: "list_all api_task ?ts" by (simp add: api_task_def get_or_def dget_def)
  have d: "dec (length ?ts) = ''1''" by code_simp
  from listing_header[of ?ts None] a b
  have "\<exists>title body. format_task_list ?ts None =
            Inr (''### '' @ title @ '' ('' @ dec (length ?ts) @ '' ''
                 @ (if length ?ts = 1 then ''item'' else ''items'') @ '')'' @ nl @ nl @ body)"
    by blast
  then have "\<exists>title body. format_task_list ?ts None
          = Inr (''### '' @ title @ '' (1 item)'' @ nl @ nl @ body)"
    unfolding d by simp
  with a b show ?thesis by blast
qed

text \<open>
  Claim C8. A task with a truthy \<open>url\<close> links to \<open>str\<close> of that value, which for a
  string is the string itself; a task without one and with a truthy \<open>id\<close> links to the
  fixed prefix followed by the id; a task with neither has no URL. The line of a task
  from the task store is its body followed by the link segment when there is a URL, and
  by nothing at all when there is none.
\<close>

theorem link_rendering:
  "(dget t ''url'' = Some u \<longrightarrow> truthy u \<longrightarrow> build_task_url (Some t) = Some (py_str u))
   \<and> py_str (PStr s) = s
   \<and> (\<not> truthy (get_or t ''url'' PNone) \<longrightarrow> dget t ''id'' = Some i \<longrightarrow> truthy i \<longrightarrow>
        build_task_url (Some t) = Some (''https://app.todoist.com/app/task/'' @ py_str i))
   \<and> (\<not> truthy (get_or t ''url'' PNone) \<longrightarrow> \<not> truthy (get_or t ''id'' PNone) \<longrightarrow>
        build_task_url (Some t) = None)
   \<and> (api_task t \<longrightarrow>
        (\<exists>body. task_body t = Inr body
           \<and> format_task_line t =
               Inr (''- '' @ body @ (case build_task_url (Some t) of None \<Rightarrow> []
                      | Some url \<Rightarrow> sep @ ''[View in Todoist]('' @ url @ '')''))))"
proof -
  have a: "dget t ''url'' = Some u \<longrightarrow> truthy u \<longrightarrow> build_task_url (Some t) = Some (py_str u)"
    by (simp add: build_task_url_def get_or_def)
  have b: "py_str (PStr s) = s" by (simp add: py_str_def)
  have c: "\<not> truthy (get_or t ''url'' PNone) \<longrightarrow> dget t ''id'' = Some i \<longrightarrow> truthy i \<longrightarrow>
        build_task_url (Some t) = Some (''https://app.todoist.com/app/task/'' @ py_str i)"
    by (auto simp: build_task_url_def get_or_def Let_def split: option.splits)
  have d: "\<not> truthy (get_or t ''url'' PNone) \<longrightarrow> \<not> truthy (get_or t ''id'' PNone) \<longrightarrow>
        build_task_url (Some t) = None"
    by (auto simp: build_task_url_def get_or_def Let_def split: option.splits)
  have e: "api_task t \<longrightarrow>
        (\<exists>body. task_body t = Inr body
           \<and> format_task_line t =
               Inr (''- '' @ body @ (case build_task_url (Some t) of None \<Rightarrow> []
                      | Some url \<Rightarrow> sep @ ''[View in Todoist]('' @ url @ '')'')))"
    using task_body_total[of t] format_task_line_link[of t] by blast
  from a b c d e show ?thesis by blast
qed

theorem link_rendering_witness:
  "build_task_url (Some [(''id'', PStr ''12345''), (''url'', PStr ''https://todoist.com/showTask?id=12345'')])
     = Some ''https://todoist.com/showTask?id=12345''
   \<and> build_task_url (Some [(''id'', PStr ''12345''), (''content'', PStr ''Example task'')])
     = Some ''https://app.todoist.com/app/task/12345''
   \<and> build_task_url (Some [(''content'', PStr ''Example task'')]) = None
   \<and> api_task [(''content'', PStr ''Example task'')]
   \<and> (\<exists>body. task_body [(''content'', PStr ''Example task'')] = Inr body
         \<and> format_task_line [(''content'', PStr ''Example task'')] = Inr (''- '' @ body))"
proof -
  let ?u = "''https://todoist.com/showTask?id=12345''"
  let ?t1 = "[(''id'', PStr ''12345''), (''url'', PStr ?u)]"
  let ?t2 = "[(''id'', PStr ''12345''), (''content'', PStr ''Example task'')]"
  let ?t3 = "[(''content'', PStr ''Example task'')]"
  have h1: "dget ?t1 ''url'' = Some (PStr ?u)" "truthy (PStr ?u)"
    by (simp_all add: dget_def)
  have h2: "\<not> truthy (get_or ?t2 ''url'' PNone)" "dget ?t2 ''id'' = Some (PStr ''12345'')"
    "truthy (PStr ''12345'')"
    by (simp_all add: dget_def get_or_def)
  have h3: "\<not> truthy (get_or ?t3 ''url'' PNone)" "\<not> truthy (get_or ?t3 ''id'' PNone)"
    "api_task ?t3"
    by (simp_all add: dget_def get_or_def api_task_def)
  from link_rendering[of ?t1 "PStr ?u" ?u] h1
  have a: "build_task_url (Some ?t1) = Some ?u" by simp
  from link_rendering[of ?t2 _ "''12345''" "PStr ''12345''"] h2
  have b: "build_task_url (Some ?t2) = Some ''https://app.todoist.com/app/task/12345''" by simp
  from link_rendering[of ?t3] h3
  have c: "build_task_url (Some ?t3) = None" by blast
  from link_rendering[of ?t3] h3(3)
  have "\<exists>body. task_body ?t3 = Inr body
           \<and> format_task_line ?t3 =
               Inr (''- '' @ body @ (case build_task_url (Some ?t3) of None \<Rightarrow> []
                      | Some url \<Rightarrow> sep @ ''[View in Todoist]('' @ url @ '')''))" by blast
  then have d: "\<exists>body. task_body ?t3 = Inr body \<and> format_task_line ?t3 = Inr (''- '' @ body)"
    unfolding c by simp
  from a b c d h3(3) show ?thesis by blast
qed

text \<open>
  Claim C10. In a list of tasks from the task store, \<open>format_task_list\<close> returns a
  text, one line per task, and the line of a task without the key \<open>content\<close> begins
  with the bold placeholder ``Untitled task''.
\<close>

theorem untitled_placeholder:
  assumes "list_all api_task tasks" and "i < length tasks"
      and "dget (tasks ! i) ''content'' = None"
  shows "\<exists>lines. format_task_list tasks fd = Inr (header (length tasks) fd @ join nl lines)
           \<and> length lines = length tasks
           \<and> prefix ''- **Untitled task**'' (lines ! i)"
proof -
  from format_lines_total[OF assms(1)] obtain ls where ls: "format_lines tasks = Inr ls"
    "length ls = length tasks" "\<forall>i < length tasks. format_task_line (tasks ! i) = Inr (ls ! i)"
    by blast
  from assms(2) have ne: "tasks \<noteq> []" by auto
  have li: "format_task_line (tasks ! i) = Inr (ls ! i)" using ls(3) assms(2) by blast
  from assms(1,2) have "api_task (tasks ! i)" by (simp add: list_all_length)
  from task_body_total[OF this] obtain rest where
    "task_body (tasks ! i) = Inr (''**'' @ py_str (get_or (tasks ! i) ''content'' (PStr ''Untitled task'')) @ ''**'' @ rest)"
    by blast
  then have tb: "task_body (tasks ! i) = Inr (''**Untitled task**'' @ rest)"
    using assms(3) by (simp add: get_or_def py_str_def)
  from format_task_line_link[OF tb] li have "prefix ''- **Untitled task**'' (ls ! i)"
    by (auto simp: prefix_def)
  moreover have "format_task_list tasks fd = Inr (header (length tasks) fd @ join nl ls)"
    using ne ls(1) by (simp add: format_task_list_def)
  ultimately show ?thesis using ls(2) by blast
qed

theorem untitled_placeholder_witness:
  "list_all api_task [[(''id'', PStr ''1''), (''content'', PStr ''First'')], [(''id'', PStr ''2'')]]
   \<and> dget ([[(''id'', PStr ''1''), (''content'', PStr ''First'')], [(''id'', PStr ''2'')]] ! 1) ''content'' = None
   \<and> (\<exists>lines. format_task_list [[(''id'', PStr ''1''), (''content'', PStr ''First'')], [(''id'', PStr ''2'')]] None
          = Inr (header (length [[(''id'', PStr ''1''), (''content'', PStr ''First'')], [(''id'', PStr ''2'')]]) None
                 @ join nl lines)
        \<and> length lines = length [[(''id'', PStr ''1''), (''content'', PStr ''First'')], [(''id'', PStr ''2'')]]
        \<and> prefix ''- **Untitled task**'' (lines ! 1))"
proof -
  let ?ts = "[[(''id'', PStr ''1''), (''content'', PStr ''First'')], [(''id'', PStr ''2'')]]"
  have a: "list_all api_task ?ts" by (simp add: api_task_def get_or_def dget_def)
  have b: "(1::nat) < length ?ts" by simp
  have c: "dget (?ts ! 1) ''content'' = None" by (simp add: dget_def)
  note d = untitled_placeholder[OF a b c, of None]
  from a c d show ?thesis by blast
qed

section \<open>The retrieval filter on a misspelt keyword\<close>

text \<open>
  Claim C9. The label pattern is written \<open>labeled?|tagged?\<close>, in which \<open>?\<close> makes only
  the final ``d'' optional. A message classified \<open>RETRIEVE\<close> that holds the non-word
  ``labele'' (or ``tagge'') before a word therefore gets that word as its label filter,
  while ``label'' before a word sets none.
\<close>

theorem label_typo_accepted:
  "detect_mode ''show tasks labele work'' = RETRIEVE
   \<and> label (retrieve_filter ''show tasks labele work'') = Some ''work''
   \<and> label (retrieve_filter ''show tasks tagge work'') = Some ''work''
   \<and> label (retrieve_filter ''show tasks label work'') = None"
  by code_simp

end
